theory Spec2Isabelle
  imports Complex_Main "HOL-Library.AList"
begin

section \<open>Python values used by the backend\<close>

text \<open>
  A Python \<open>set\<close> is modelled as a list in insertion order: \<open>add\<close> appends an element
  that is not yet a member, \<open>discard\<close> removes every occurrence, membership is
  membership in \<^const>\<open>set\<close>, and an empty set (falsy in Python) is \<open>[]\<close>.
  A \<open>dict\<close> whose keys are only looked up is a map; the aggregation cache, whose keys
  are iterated, is an association list.
\<close>

definition set_add :: "'a \<Rightarrow> 'a list \<Rightarrow> 'a list" where
  "set_add x xs = (if x \<in> set xs then xs else xs @ [x])"

definition set_discard :: "'a \<Rightarrow> 'a list \<Rightarrow> 'a list" where
  "set_discard x xs = removeAll x xs"

text \<open>
  Exceptions are values. \<open>ValueError\<close> and \<open>OverflowError\<close> are the built-in ones the
  value objects raise; the four ingestion errors are the classes of
  \<open>ingestion_service.py\<close>; \<open>OtherException\<close> stands for any other subclass of
  \<open>Exception\<close> raised by a collaborator (a failed socket send, a failed store read).
  Task cancellation and the other exceptions outside \<open>Exception\<close> are not modelled.
\<close>

datatype exn =
    ValueError string
  | OverflowError string
  | AuthenticationError
  | DeviceNotFoundError string
  | DeviceInactiveError string
  | InvalidPayloadError string
  | OtherException string

section \<open>WebSocketManager (infrastructure/websocket/manager.py)\<close>

record 'ws manager =
  device_subscribers :: "string \<rightharpoonup> 'ws list"
  connection_subscriptions :: "'ws \<rightharpoonup> string list"

definition init_manager :: "'ws manager" where
  "init_manager = \<lparr>device_subscribers = Map.empty, connection_subscriptions = Map.empty\<rparr>"

text \<open>\<open>connect\<close>: \<open>self._connection_subscriptions[websocket] = set()\<close>.\<close>

definition connect :: "'ws \<Rightarrow> 'ws manager \<Rightarrow> 'ws manager" where
  "connect websocket m =
     m\<lparr>connection_subscriptions := (connection_subscriptions m)(websocket \<mapsto> [])\<rparr>"

text \<open>
  The block shared by \<open>disconnect\<close> (loop body) and \<open>unsubscribe\<close>:
  \<^verbatim>\<open>
  if device_id in self._device_subscribers:
      self._device_subscribers[device_id].discard(websocket)
      if not self._device_subscribers[device_id]:
          del self._device_subscribers[device_id]
  \<close>
\<close>

definition discard_subscriber ::
  "'ws \<Rightarrow> string \<Rightarrow> (string \<rightharpoonup> 'ws list) \<Rightarrow> (string \<rightharpoonup> 'ws list)" where
  "discard_subscriber websocket device_id subs =
     (case subs device_id of
        None \<Rightarrow> subs
      | Some S \<Rightarrow>
          (let S' = set_discard websocket S
           in if S' = [] then subs(device_id := None) else subs(device_id \<mapsto> S')))"

text \<open>
  \<open>disconnect\<close>: \<open>subscribed_devices = self._connection_subscriptions.pop(websocket, set())\<close>,
  then the loop over \<open>subscribed_devices\<close>.
\<close>

definition disconnect :: "'ws \<Rightarrow> 'ws manager \<Rightarrow> 'ws manager" where
  "disconnect websocket m =
     (let subscribed_devices =
            (case connection_subscriptions m websocket of None \<Rightarrow> [] | Some T \<Rightarrow> T);
          conns = (connection_subscriptions m)(websocket := None)
      in \<lparr>device_subscribers =
            fold (discard_subscriber websocket) subscribed_devices (device_subscribers m),
          connection_subscriptions = conns\<rparr>)"

text \<open>
  \<open>subscribe\<close>: the topic's set is created when missing and the connection is added to it
  unconditionally; the connection's own set is updated only
  \<open>if websocket in self._connection_subscriptions\<close>.
\<close>

definition subscribe :: "'ws \<Rightarrow> string \<Rightarrow> 'ws manager \<Rightarrow> 'ws manager" where
  "subscribe websocket device_id m =
     (let S = (case device_subscribers m device_id of None \<Rightarrow> [] | Some S \<Rightarrow> S);
          subs = (device_subscribers m)(device_id \<mapsto> set_add websocket S);
          conns = (case connection_subscriptions m websocket of
                     None \<Rightarrow> connection_subscriptions m
                   | Some T \<Rightarrow> (connection_subscriptions m)(websocket \<mapsto> set_add device_id T))
      in \<lparr>device_subscribers = subs, connection_subscriptions = conns\<rparr>)"

definition unsubscribe :: "'ws \<Rightarrow> string \<Rightarrow> 'ws manager \<Rightarrow> 'ws manager" where
  "unsubscribe websocket device_id m =
     (let subs = discard_subscriber websocket device_id (device_subscribers m);
          conns = (case connection_subscriptions m websocket of
                     None \<Rightarrow> connection_subscriptions m
                   | Some T \<Rightarrow> (connection_subscriptions m)(websocket \<mapsto> set_discard device_id T))
      in \<lparr>device_subscribers = subs, connection_subscriptions = conns\<rparr>)"

subsection \<open>Sequences of subscribe and unsubscribe calls\<close>

datatype 'ws call = Subscribe 'ws string | Unsubscribe 'ws string

fun apply_call :: "'ws call \<Rightarrow> 'ws manager \<Rightarrow> 'ws manager" where
  "apply_call (Subscribe ws d) m = subscribe ws d m"
| "apply_call (Unsubscribe ws d) m = unsubscribe ws d m"

definition run_calls :: "'ws call list \<Rightarrow> 'ws manager \<Rightarrow> 'ws manager" where
  "run_calls calls m = fold apply_call calls m"

subsection \<open>The two-way index and its invariant\<close>

definition in_topic_set :: "'ws manager \<Rightarrow> 'ws \<Rightarrow> string \<Rightarrow> bool" where
  "in_topic_set m ws d =
     (case device_subscribers m d of None \<Rightarrow> False | Some S \<Rightarrow> ws \<in> set S)"

definition in_connection_set :: "'ws manager \<Rightarrow> 'ws \<Rightarrow> string \<Rightarrow> bool" where
  "in_connection_set m ws d =
     (case connection_subscriptions m ws of None \<Rightarrow> False | Some T \<Rightarrow> d \<in> set T)"

definition mutually_consistent :: "'ws manager \<Rightarrow> bool" where
  "mutually_consistent m = (\<forall>ws d. in_topic_set m ws d = in_connection_set m ws d)"

definition no_empty_topic :: "'ws manager \<Rightarrow> bool" where
  "no_empty_topic m = (\<forall>d. device_subscribers m d \<noteq> Some [])"

subsection \<open>Broadcast\<close>

text \<open>
  The push channel: \<open>client_state\<close> is the state starlette reports for the socket,
  \<open>send_json ws payload\<close> is \<open>None\<close> when the send returns and \<open>Some e\<close> when it
  raises the exception \<open>e\<close> (a subclass of \<open>Exception\<close>).
\<close>

datatype WebSocketState = CONNECTING | CONNECTED | DISCONNECTED | RESPONSE

record ('ws, 'msg) channel =
  client_state :: "'ws \<Rightarrow> WebSocketState"
  send_json :: "'ws \<Rightarrow> string \<times> string \<times> 'msg \<Rightarrow> exn option"

text \<open>
  What the fan-out accumulates: the payloads handed to a socket whose send returned, and
  the local list \<open>disconnected\<close>.
\<close>

record ('ws, 'msg) fanout =
  delivered :: "('ws \<times> string \<times> string \<times> 'msg) list"
  disconnected :: "'ws list"

text \<open>
  \<open>send_to_subscriber\<close>: the \<open>try\<close> body sends only to a \<open>CONNECTED\<close> socket; the
  \<open>except Exception\<close> handler appends the socket to \<open>disconnected\<close> and returns normally.
\<close>

definition send_to_subscriber ::
  "('ws, 'msg) channel \<Rightarrow> string \<Rightarrow> 'msg \<Rightarrow> 'ws \<Rightarrow> ('ws, 'msg) fanout
     \<Rightarrow> exn + ('ws, 'msg) fanout" where
  "send_to_subscriber ch device_id message ws acc =
     (let payload = (''reading'', device_id, message);
          body = (if client_state ch ws = CONNECTED
                  then (case send_json ch ws payload of
                          Some e \<Rightarrow> Inl e
                        | None \<Rightarrow> Inr (acc\<lparr>delivered := delivered acc @ [(ws, payload)]\<rparr>))
                  else Inr acc)
      in case body of
           Inl e \<Rightarrow> Inr (acc\<lparr>disconnected := disconnected acc @ [ws]\<rparr>)
         | Inr acc' \<Rightarrow> Inr acc')"

text \<open>
  \<open>asyncio.gather\<close> without \<open>return_exceptions\<close>: every coroutine runs; an exception
  raised by one of them is raised by the \<open>await\<close>. The coroutines are run here in the
  order of the snapshot.
\<close>

fun gather :: "('a \<Rightarrow> 's \<Rightarrow> exn + 's) \<Rightarrow> 'a list \<Rightarrow> 's \<Rightarrow> exn + 's" where
  "gather f [] acc = Inr acc"
| "gather f (x # xs) acc =
     (case f x acc of
        Inl e \<Rightarrow> Inl e
      | Inr acc' \<Rightarrow> gather f xs acc')"

definition broadcast_to_device ::
  "('ws, 'msg) channel \<Rightarrow> string \<Rightarrow> 'msg \<Rightarrow> 'ws manager
     \<Rightarrow> exn + ('ws manager \<times> ('ws \<times> string \<times> string \<times> 'msg) list)" where
  "broadcast_to_device ch device_id message m =
     (let subscribers = (case device_subscribers m device_id of None \<Rightarrow> [] | Some S \<Rightarrow> S)
      in if subscribers = [] then Inr (m, [])
         else (case gather (send_to_subscriber ch device_id message) subscribers
                      \<lparr>delivered = [], disconnected = []\<rparr> of
                 Inl e \<Rightarrow> Inl e
               | Inr acc \<Rightarrow> Inr (fold disconnect (disconnected acc) m, delivered acc)))"


text \<open>What the claims about broadcast speak of: the snapshot and the fate of each send.\<close>

definition subscribers_of :: "'ws manager \<Rightarrow> string \<Rightarrow> 'ws list" where
  "subscribers_of m d = (case device_subscribers m d of None \<Rightarrow> [] | Some S \<Rightarrow> S)"

definition send_succeeds :: "('ws, 'msg) channel \<Rightarrow> string \<Rightarrow> 'msg \<Rightarrow> 'ws \<Rightarrow> bool" where
  "send_succeeds ch d msg ws =
     (client_state ch ws = CONNECTED \<and> send_json ch ws (''reading'', d, msg) = None)"

definition send_fails :: "('ws, 'msg) channel \<Rightarrow> string \<Rightarrow> 'msg \<Rightarrow> 'ws \<Rightarrow> bool" where
  "send_fails ch d msg ws =
     (client_state ch ws = CONNECTED \<and> send_json ch ws (''reading'', d, msg) \<noteq> None)"

section \<open>Python's datetime and timedelta\<close>

text \<open>
  A naive \<open>datetime\<close> is the number of microseconds since the start of proleptic
  Gregorian ordinal day 0 (ordinal 1 is 0001-01-01), a \<open>timedelta\<close> a number of
  microseconds. \<open>ymd2ord\<close> is the standard library's conversion of a calendar date to
  its ordinal. Both types are bounded in Python: a \<open>timedelta\<close> of more than 999999999
  days and a date outside the years 1 to 9999 raise \<open>OverflowError\<close>.
\<close>

type_synonym datetime = int
type_synonym timedelta = int

definition is_leap :: "int \<Rightarrow> bool" where
  "is_leap year = (year mod 4 = 0 \<and> (year mod 100 \<noteq> 0 \<or> year mod 400 = 0))"

definition days_before_year :: "int \<Rightarrow> int" where
  "days_before_year year =
     (let y = year - 1 in y * 365 + y div 4 - y div 100 + y div 400)"

definition days_in_month :: "int \<Rightarrow> int \<Rightarrow> int" where
  "days_in_month year month =
     (if month = 2 \<and> is_leap year then 29
      else [31, 28, 31, 30, 31, 30, 31, 31, 30, 31, 30, 31] ! nat (month - 1))"

definition days_before_month :: "int \<Rightarrow> int \<Rightarrow> int" where
  "days_before_month year month =
     [0, 31, 59, 90, 120, 151, 181, 212, 243, 273, 304, 334] ! nat (month - 1)
       + (if month > 2 \<and> is_leap year then 1 else 0)"

definition ymd2ord :: "int \<Rightarrow> int \<Rightarrow> int \<Rightarrow> int" where
  "ymd2ord year month day = days_before_year year + days_before_month year month + day"

definition us_per_day :: int where
  "us_per_day = 86400000000"

text \<open>
  The constructor \<open>datetime(year, month, day, hour, minute, second)\<close>; fields out of
  range raise \<open>ValueError\<close>, so the two tables are read only for months 1 to 12.
\<close>

definition mk_datetime :: "int \<Rightarrow> int \<Rightarrow> int \<Rightarrow> int \<Rightarrow> int \<Rightarrow> int \<Rightarrow> exn + datetime" where
  "mk_datetime year month day hour minute second =
     (if \<not> (1 \<le> year \<and> year \<le> 9999) then Inl (ValueError ''year is out of range'')
      else if \<not> (1 \<le> month \<and> month \<le> 12) then Inl (ValueError ''month must be in 1..12'')
      else if \<not> (1 \<le> day \<and> day \<le> days_in_month year month)
        then Inl (ValueError ''day is out of range for month'')
      else if \<not> (0 \<le> hour \<and> hour \<le> 23) then Inl (ValueError ''hour must be in 0..23'')
      else if \<not> (0 \<le> minute \<and> minute \<le> 59) then Inl (ValueError ''minute must be in 0..59'')
      else if \<not> (0 \<le> second \<and> second \<le> 59) then Inl (ValueError ''second must be in 0..59'')
      else Inr (ymd2ord year month day * us_per_day
                  + ((hour * 60 + minute) * 60 + second) * 1000000))"

definition mk_timedelta :: "int \<Rightarrow> exn + timedelta" where
  "mk_timedelta us =
     (if abs (us div us_per_day) > 999999999
      then Inl (OverflowError ''days out of range'')
      else Inr us)"

definition datetime_sub :: "datetime \<Rightarrow> timedelta \<Rightarrow> exn + datetime" where
  "datetime_sub t delta =
     (let r = t - delta
      in if 1 \<le> r div us_per_day \<and> r div us_per_day \<le> 3652059
         then Inr r
         else Inl (OverflowError ''date value out of range''))"

section \<open>TimeRange (domain/value_objects/time_range.py)\<close>

record TimeRange =
  range_start :: datetime
  range_end :: datetime

text \<open>\<open>__post_init__\<close>: \<open>if self.start >= self.end: raise ValueError\<close>.\<close>

definition TimeRange_init :: "datetime \<Rightarrow> datetime \<Rightarrow> exn + TimeRange" where
  "TimeRange_init start end =
     (if start \<ge> end then Inl (ValueError ''Start time must be before end time'')
      else Inr \<lparr>range_start = start, range_end = end\<rparr>)"

text \<open>
  \<open>str.lower\<close> on the ASCII letters, \<open>\d\<close> on the ASCII digits and \<open>int\<close> of a digit
  string. The pattern \<open>^(\d+)([hdmw])$\<close> is matched by \<open>re.match\<close>: a non-empty run of
  digits, one unit letter, and then the end of the string, which \<open>$\<close> also accepts
  just before one final newline.
\<close>

definition lower_char :: "char \<Rightarrow> char" where
  "lower_char c =
     (if c \<in> set ''ABCDEFGHIJKLMNOPQRSTUVWXYZ'' then char_of (of_char c + (32::nat)) else c)"

definition lower :: "string \<Rightarrow> string" where
  "lower s = map lower_char s"

definition is_digit :: "char \<Rightarrow> bool" where
  "is_digit c = (c \<in> set ''0123456789'')"

definition int_of_digits :: "string \<Rightarrow> int" where
  "int_of_digits ds = foldl (\<lambda>n c. 10 * n + (int (of_char c) - 48)) 0 ds"

definition is_unit :: "char \<Rightarrow> bool" where
  "is_unit c = (c \<in> set ''hdmw'')"

definition match_duration :: "string \<Rightarrow> (string \<times> char) option" where
  "match_duration s =
     (let ds = takeWhile is_digit s; rest = dropWhile is_digit s
      in if ds = [] then None
         else (case rest of
                 [u] \<Rightarrow> if is_unit u then Some (ds, u) else None
               | [u, nl] \<Rightarrow> if is_unit u \<and> nl = CHR 0x0A then Some (ds, u) else None
               | _ \<Rightarrow> None))"

text \<open>
  \<open>TimeRange.last(duration_str, now)\<close>; \<open>utcnow\<close> is what \<open>datetime.utcnow()\<close> returns
  when \<open>now\<close> is omitted. Messages are cut to their fixed prefix.
\<close>

definition TimeRange_last :: "string \<Rightarrow> datetime option \<Rightarrow> datetime \<Rightarrow> exn + TimeRange" where
  "TimeRange_last duration_str now_arg utcnow =
     (let now = (case now_arg of None \<Rightarrow> utcnow | Some n \<Rightarrow> n)
      in case match_duration (lower duration_str) of
           None \<Rightarrow> Inl (ValueError ''Invalid duration format'')
         | Some (digits, unit) \<Rightarrow>
             (let v = int_of_digits digits
              in if v \<le> 0 then Inl (ValueError ''Duration must be positive'')
                 else (case (if unit = CHR ''m'' then mk_timedelta (v * 60000000)
                             else if unit = CHR ''h'' then mk_timedelta (v * 3600000000)
                             else if unit = CHR ''d'' then mk_timedelta (v * us_per_day)
                             else if unit = CHR ''w'' then mk_timedelta (v * 7 * us_per_day)
                             else Inl (ValueError ''Unknown time unit'')) of
                         Inl e \<Rightarrow> Inl e
                       | Inr delta \<Rightarrow>
                           (case datetime_sub now delta of
                              Inl e \<Rightarrow> Inl e
                            | Inr start \<Rightarrow> TimeRange_init start now))))"

section \<open>AggregationService cache (services/aggregation_service.py)\<close>

text \<open>
  \<open>self._cache: dict[str, tuple[datetime, Any]]\<close> as an association list;
  \<^const>\<open>map_of\<close> is the lookup, \<^const>\<open>AList.update\<close> the item assignment and
  \<^const>\<open>AList.delete\<close> the \<open>del\<close>.
\<close>

type_synonym 'v cache = "(string \<times> (datetime \<times> 'v)) list"

text \<open>
  \<open>_get_cached\<close>: \<open>age_seconds = (datetime.utcnow() - cached_at).total_seconds()\<close> is the
  difference in microseconds over 1000000 and is compared with the TTL in seconds; an
  expired entry is deleted by the lookup.
\<close>

definition get_cached :: "int \<Rightarrow> datetime \<Rightarrow> string \<Rightarrow> 'v cache \<Rightarrow> 'v option \<times> 'v cache" where
  "get_cached aggregation_cache_ttl utcnow key cache =
     (case map_of cache key of
        None \<Rightarrow> (None, cache)
      | Some (cached_at, v) \<Rightarrow>
          if utcnow - cached_at > aggregation_cache_ttl * 1000000
          then (None, AList.delete key cache)
          else (Some v, cache))"

definition set_cached :: "datetime \<Rightarrow> string \<Rightarrow> 'v \<Rightarrow> 'v cache \<Rightarrow> 'v cache" where
  "set_cached utcnow key v cache = AList.update key (utcnow, v) cache"

text \<open>
  \<open>get_device_stats\<close>. \<open>get_stats\<close> is \<open>self._reading_repo.get_stats\<close>, a read of the
  store that returns the statistics or raises. The three clock readings are the ones
  of \<open>TimeRange.last\<close>, \<open>_get_cached\<close> and \<open>_set_cached\<close>. The result carries the new
  cache and the list of \<open>get_stats\<close> invocations made by the call.
\<close>

definition cache_key :: "string \<Rightarrow> string \<Rightarrow> string" where
  "cache_key device_id range_str = ''stats:'' @ device_id @ '':'' @ range_str"

definition get_device_stats ::
  "int \<Rightarrow> (string \<Rightarrow> TimeRange \<Rightarrow> exn + 'v) \<Rightarrow> datetime \<Rightarrow> datetime \<Rightarrow> datetime
     \<Rightarrow> string \<Rightarrow> string \<Rightarrow> 'v cache
     \<Rightarrow> (exn + 'v) \<times> 'v cache \<times> (string \<times> TimeRange) list" where
  "get_device_stats aggregation_cache_ttl get_stats now0 now1 now2 device_id range_str cache =
     (case TimeRange_last range_str None now0 of
        Inl e \<Rightarrow> (Inl e, cache, [])
      | Inr time_range \<Rightarrow>
          (case get_cached aggregation_cache_ttl now1 (cache_key device_id range_str) cache of
             (Some cached, cache1) \<Rightarrow> (Inr cached, cache1, [])
           | (None, cache1) \<Rightarrow>
               (case get_stats device_id time_range of
                  Inl e \<Rightarrow> (Inl e, cache1, [(device_id, time_range)])
                | Inr stats \<Rightarrow>
                    (Inr stats,
                     set_cached now2 (cache_key device_id range_str) stats cache1,
                     [(device_id, time_range)]))))"

text \<open>
  \<open>clear_cache\<close>: \<open>if device_id:\<close> holds for a non-empty string; the keys to remove are
  those with \<open>device_id in k\<close>, Python's substring test.
\<close>

fun str_contains :: "string \<Rightarrow> string \<Rightarrow> bool" where
  "str_contains d [] = (d = [])"
| "str_contains d (c # cs) = (take (length d) (c # cs) = d \<or> str_contains d cs)"

definition clear_cache :: "string option \<Rightarrow> 'v cache \<Rightarrow> 'v cache" where
  "clear_cache device_id cache =
     (case device_id of
        None \<Rightarrow> []
      | Some d \<Rightarrow>
          if d \<noteq> []
          then (let keys_to_remove = filter (str_contains d) (map fst cache)
                in fold AList.delete keys_to_remove cache)
          else [])"

text \<open>A key references a device when it is the key \<open>get_device_stats\<close> builds for it.\<close>

definition key_of_device :: "string \<Rightarrow> string \<Rightarrow> bool" where
  "key_of_device d k = (take (length (''stats:'' @ d @ '':'')) k = ''stats:'' @ d @ '':'')"


section \<open>SensorMetrics (domain/value_objects/metrics.py)\<close>

text \<open>
  A Python \<open>float\<close>: a finite value, an infinity or NaN. The chained comparison
  \<open>lo <= x <= hi\<close> is false for NaN and for both infinities (the bounds are finite).
\<close>

datatype pyfloat = Finite real | PosInf | NegInf | NaN

definition between :: "real \<Rightarrow> pyfloat \<Rightarrow> real \<Rightarrow> bool" where
  "between lo x hi = (case x of Finite r \<Rightarrow> lo \<le> r \<and> r \<le> hi | _ \<Rightarrow> False)"

record SensorMetrics =
  temperature :: "pyfloat option"
  humidity :: "pyfloat option"
  voltage :: "pyfloat option"

definition TEMP_MIN :: real where "TEMP_MIN = -40"
definition TEMP_MAX :: real where "TEMP_MAX = 85"
definition HUMIDITY_MIN :: real where "HUMIDITY_MIN = 0"
definition HUMIDITY_MAX :: real where "HUMIDITY_MAX = 100"
definition VOLTAGE_MIN :: real where "VOLTAGE_MIN = 0"
definition VOLTAGE_MAX :: real where "VOLTAGE_MAX = 24"

text \<open>\<open>__post_init__\<close>, run by the constructor; the three checks in the source's order.\<close>

definition out_of_range :: "real \<Rightarrow> pyfloat option \<Rightarrow> real \<Rightarrow> bool" where
  "out_of_range lo x hi = (case x of None \<Rightarrow> False | Some f \<Rightarrow> \<not> between lo f hi)"

definition SensorMetrics_init ::
  "pyfloat option \<Rightarrow> pyfloat option \<Rightarrow> pyfloat option \<Rightarrow> exn + SensorMetrics" where
  "SensorMetrics_init t h v =
     (if out_of_range TEMP_MIN t TEMP_MAX
      then Inl (ValueError ''Temperature must be between -40.0 and 85.0'')
      else if out_of_range HUMIDITY_MIN h HUMIDITY_MAX
      then Inl (ValueError ''Humidity must be between 0.0 and 100.0'')
      else if out_of_range VOLTAGE_MIN v VOLTAGE_MAX
      then Inl (ValueError ''Voltage must be between 0.0 and 24.0'')
      else Inr \<lparr>temperature = t, humidity = h, voltage = v\<rparr>)"

definition from_dict :: "(string \<rightharpoonup> pyfloat) \<Rightarrow> exn + SensorMetrics" where
  "from_dict data =
     SensorMetrics_init (data ''temperature'') (data ''humidity'') (data ''voltage'')"

definition has_any_metric :: "SensorMetrics \<Rightarrow> bool" where
  "has_any_metric metrics =
     (temperature metrics \<noteq> None \<or> humidity metrics \<noteq> None \<or> voltage metrics \<noteq> None)"

section \<open>Entities and stores\<close>

record Device =
  device_uuid :: nat
  device_device_id :: string
  device_name :: "string option"
  api_key_hash :: string
  is_active :: bool
  created_at :: datetime
  last_seen_at :: "datetime option"

record Reading =
  reading_id :: nat
  reading_device_id :: string
  reading_metrics :: SensorMetrics
  reading_timestamp :: datetime

text \<open>
  \<open>str.strip\<close> and \<open>Reading.create\<close>, which raises \<open>ValueError\<close> for an empty or
  blank device id; \<open>new_id\<close> is the value of \<open>uuid4()\<close>. The whitespace characters are
  those below code point 256.
\<close>

definition is_space :: "char \<Rightarrow> bool" where
  "is_space c = (of_char c \<in> {9, 10, 11, 12, 13, 28, 29, 30, 31, 32, 133, 160 :: nat})"

definition strip :: "string \<Rightarrow> string" where
  "strip s = rev (dropWhile is_space (rev (dropWhile is_space s)))"

definition Reading_create ::
  "nat \<Rightarrow> string \<Rightarrow> SensorMetrics \<Rightarrow> datetime \<Rightarrow> exn + Reading" where
  "Reading_create new_id device_id metrics timestamp =
     (if device_id = [] \<or> strip device_id = []
      then Inl (ValueError ''device_id cannot be empty'')
      else Inr \<lparr>reading_id = new_id, reading_device_id = strip device_id,
                reading_metrics = metrics, reading_timestamp = timestamp\<rparr>)"

text \<open>
  The collaborators of the ingestion service: the device table, the reading table and
  the record of every call that has an effect outside the service, in the order made.
\<close>

datatype effect =
    ReadingCreate Reading
  | UpdateLastSeen string datetime
  | BroadcastToDevice string Reading

record world =
  devices :: "string \<rightharpoonup> Device"
  readings :: "Reading list"
  effects :: "effect list"

definition get_by_id :: "string \<Rightarrow> world \<Rightarrow> Device option" where
  "get_by_id device_id w = devices w device_id"

definition reading_repo_create :: "Reading \<Rightarrow> world \<Rightarrow> world" where
  "reading_repo_create reading w =
     w\<lparr>readings := readings w @ [reading], effects := effects w @ [ReadingCreate reading]\<rparr>"

definition update_last_seen :: "string \<Rightarrow> datetime \<Rightarrow> world \<Rightarrow> world" where
  "update_last_seen device_id timestamp w =
     w\<lparr>devices := (case devices w device_id of
                      None \<Rightarrow> devices w
                    | Some dev \<Rightarrow> (devices w)(device_id \<mapsto> dev\<lparr>last_seen_at := Some timestamp\<rparr>)),
       effects := effects w @ [UpdateLastSeen device_id timestamp]\<rparr>"

definition ws_broadcast_to_device :: "string \<Rightarrow> Reading \<Rightarrow> world \<Rightarrow> world" where
  "ws_broadcast_to_device device_id reading w =
     w\<lparr>effects := effects w @ [BroadcastToDevice device_id reading]\<rparr>"

section \<open>IngestionService.ingest (services/ingestion_service.py)\<close>

text \<open>
  \<open>device_api_keys_set\<close> is the configured key set, \<open>has_ws_manager\<close> says whether a
  WebSocket manager was injected, \<open>now\<close> is \<open>datetime.now(timezone.utc)\<close> and \<open>new_id\<close>
  the fresh UUID. The steps are numbered as in the source.
\<close>

definition ingest ::
  "string list \<Rightarrow> bool \<Rightarrow> datetime \<Rightarrow> nat \<Rightarrow> string \<Rightarrow> (string \<rightharpoonup> pyfloat) \<Rightarrow> string option
     \<Rightarrow> world \<Rightarrow> (exn + Reading) \<times> world" where
  "ingest device_api_keys_set has_ws_manager now new_id device_id metrics_data api_key w =
     \<comment> \<open>1. Validate API key\<close>
     (if api_key = None \<or> api_key = Some [] then (Inl AuthenticationError, w)
      else if (case api_key of None \<Rightarrow> True | Some k \<Rightarrow> k \<notin> set device_api_keys_set)
      then (Inl AuthenticationError, w)
      else
        \<comment> \<open>2. Validate device exists\<close>
        (case get_by_id device_id w of
           None \<Rightarrow> (Inl (DeviceNotFoundError device_id), w)
         | Some device \<Rightarrow>
             if \<not> is_active device then (Inl (DeviceInactiveError device_id), w)
             else
               \<comment> \<open>3. Validate and parse metrics\<close>
               (case from_dict metrics_data of
                  Inl (ValueError msg) \<Rightarrow> (Inl (InvalidPayloadError msg), w)
                | Inl e \<Rightarrow> (Inl e, w)
                | Inr metrics \<Rightarrow>
                    if \<not> has_any_metric metrics
                    then (Inl (InvalidPayloadError ''At least one metric value is required''), w)
                    else
                      \<comment> \<open>4. server timestamp, 5. create and persist reading\<close>
                      (case Reading_create new_id device_id metrics now of
                         Inl e \<Rightarrow> (Inl e, w)
                       | Inr reading \<Rightarrow>
                           (let w1 = reading_repo_create reading w;
                                \<comment> \<open>6. Update device last_seen_at\<close>
                                w2 = update_last_seen device_id now w1;
                                \<comment> \<open>7. Broadcast to WebSocket subscribers\<close>
                                w3 = (if has_ws_manager
                                      then ws_broadcast_to_device device_id reading w2
                                      else w2)
                            in (Inr reading, w3))))))"

text \<open>The reserved topic of the \<open>/stream/all\<close> endpoint (api/realtime/routes.py).\<close>

definition ALL_DEVICES :: string where
  "ALL_DEVICES = ''__all__''"

text \<open>\<open>stream_all_devices\<close> up to its receive loop: connect, then subscribe to the topic.\<close>

definition stream_all_devices_open :: "'ws \<Rightarrow> 'ws manager \<Rightarrow> 'ws manager" where
  "stream_all_devices_open websocket m = subscribe websocket ALL_DEVICES (connect websocket m)"

section \<open>Example values\<close>

definition example_registry :: "nat manager" where
  "example_registry =
     subscribe 3 ''esp32_01'' (subscribe 2 ''esp32_01'' (subscribe 1 ''esp32_02''
       (subscribe 1 ''esp32_01'' (connect 3 (connect 2 (connect 1 init_manager))))))"

definition example_channel :: "(nat, string) channel" where
  "example_channel =
     \<lparr>client_state = (\<lambda>ws. CONNECTED),
      send_json = (\<lambda>ws payload. if ws = 2 then Some (OtherException ''socket closed'') else None)\<rparr>"

definition stale_registry :: "nat manager" where
  "stale_registry = subscribe 7 ''esp32_01'' (disconnect 7 (connect 7 init_manager))"

definition failing_channel :: "(nat, string) channel" where
  "failing_channel =
     \<lparr>client_state = (\<lambda>ws. CONNECTED),
      send_json = (\<lambda>ws payload. Some (OtherException ''socket closed''))\<rparr>"

definition half_stale_registry :: "nat manager" where
  "half_stale_registry = subscribe 7 ''esp32_01'' example_registry"

definition example_now :: datetime where
  "example_now = 63841003200000000"

definition example_key :: string where
  "example_key = ''stats:esp32_01:24h''"

definition example_device :: Device where
  "example_device =
     \<lparr>device_uuid = 1, device_device_id = ''esp32_01'', device_name = Some ''Living Room Sensor'',
      api_key_hash = ''hash'', is_active = True, created_at = 63840916800000000,
      last_seen_at = None\<rparr>"

definition example_world :: world where
  "example_world = \<lparr>devices = [''esp32_01'' \<mapsto> example_device], readings = [], effects = []\<rparr>"

definition example_reading :: Reading where
  "example_reading =
     \<lparr>reading_id = 7, reading_device_id = ''esp32_01'',
      reading_metrics = \<lparr>temperature = Some (Finite 25), humidity = None, voltage = None\<rparr>,
      reading_timestamp = example_now\<rparr>"

section \<open>The connection registry\<close>


lemma set_set_add: "set (set_add x xs) = insert x (set xs)"
  by (auto simp: set_add_def)

lemma set_set_discard: "set (set_discard x xs) = set xs - {x}"
  by (simp add: set_discard_def)

lemma set_add_not_Nil: "set_add x xs \<noteq> []"
  by (auto simp: set_add_def)

lemma set_discard_Nil_iff: "set_discard x xs = [] \<longleftrightarrow> set xs \<subseteq> {x}"
  by (induction xs) (auto simp: set_discard_def)

lemma set_discard_idem: "set_discard x (set_discard x xs) = set_discard x xs"
  by (simp add: set_discard_def)

lemma discard_subscriber_apply:
  "discard_subscriber ws d subs d' =
     (if d' = d
      then (case subs d of
              None \<Rightarrow> None
            | Some S \<Rightarrow> if set_discard ws S = [] then None else Some (set_discard ws S))
      else subs d')"
  by (simp add: discard_subscriber_def Let_def split: option.splits)

lemma fold_discard_subscriber_apply:
  "fold (discard_subscriber ws) ds subs d' =
     (if d' \<in> set ds
      then (case subs d' of
              None \<Rightarrow> None
            | Some S \<Rightarrow> if set_discard ws S = [] then None else Some (set_discard ws S))
      else subs d')"
proof (induction ds arbitrary: subs)
  case Nil
  show ?case by simp
next
  case (Cons d ds)
  have "fold (discard_subscriber ws) (d # ds) subs d' =
        fold (discard_subscriber ws) ds (discard_subscriber ws d subs) d'"
    by simp
  also have "\<dots> =
     (if d' \<in> set ds
      then (case discard_subscriber ws d subs d' of
              None \<Rightarrow> None
            | Some S \<Rightarrow> if set_discard ws S = [] then None else Some (set_discard ws S))
      else discard_subscriber ws d subs d')"
    by (rule Cons.IH)
  also have "\<dots> =
     (if d' \<in> set (d # ds)
      then (case subs d' of
              None \<Rightarrow> None
            | Some S \<Rightarrow> if set_discard ws S = [] then None else Some (set_discard ws S))
      else subs d')"
    unfolding discard_subscriber_apply
    by (auto simp: set_discard_idem split: option.splits)
  finally show ?case .
qed

lemma subscribe_topic:
  "in_topic_set (subscribe ws d m) ws' d' = ((ws' = ws \<and> d' = d) \<or> in_topic_set m ws' d')"
  by (auto simp: in_topic_set_def subscribe_def Let_def set_set_add split: option.splits)

lemma subscribe_connection:
  "connection_subscriptions m ws \<noteq> None \<Longrightarrow>
   in_connection_set (subscribe ws d m) ws' d' = ((ws' = ws \<and> d' = d) \<or> in_connection_set m ws' d')"
  by (auto simp: in_connection_set_def subscribe_def Let_def set_set_add split: option.splits)

lemma unsubscribe_topic:
  "in_topic_set (unsubscribe ws d m) ws' d' = (\<not> (ws' = ws \<and> d' = d) \<and> in_topic_set m ws' d')"
  by (auto simp: in_topic_set_def unsubscribe_def Let_def discard_subscriber_apply
        set_set_discard set_discard_Nil_iff split: option.splits)

lemma unsubscribe_connection:
  "in_connection_set (unsubscribe ws d m) ws' d' =
     (\<not> (ws' = ws \<and> d' = d) \<and> in_connection_set m ws' d')"
  by (auto simp: in_connection_set_def unsubscribe_def Let_def set_set_discard
        split: option.splits)

lemma subscribe_dom:
  "dom (connection_subscriptions (subscribe ws d m)) = dom (connection_subscriptions m)"
  by (auto simp: subscribe_def Let_def split: option.splits)

lemma unsubscribe_dom:
  "dom (connection_subscriptions (unsubscribe ws d m)) = dom (connection_subscriptions m)"
  by (auto simp: unsubscribe_def Let_def split: option.splits)

lemma subscribe_no_empty: "no_empty_topic m \<Longrightarrow> no_empty_topic (subscribe ws d m)"
  by (auto simp: no_empty_topic_def subscribe_def Let_def set_add_not_Nil)

lemma unsubscribe_no_empty: "no_empty_topic m \<Longrightarrow> no_empty_topic (unsubscribe ws d m)"
  by (auto simp: no_empty_topic_def unsubscribe_def Let_def discard_subscriber_apply
        split: option.splits)

lemma subscribe_consistent:
  "mutually_consistent m \<Longrightarrow> connection_subscriptions m ws \<noteq> None \<Longrightarrow>
   mutually_consistent (subscribe ws d m)"
  by (simp add: mutually_consistent_def subscribe_topic subscribe_connection)

lemma unsubscribe_consistent:
  "mutually_consistent m \<Longrightarrow> mutually_consistent (unsubscribe ws d m)"
  by (simp add: mutually_consistent_def unsubscribe_topic unsubscribe_connection)

lemma run_calls_invariant:
  "mutually_consistent m \<Longrightarrow> no_empty_topic m \<Longrightarrow>
   \<forall>ws d. Subscribe ws d \<in> set calls \<longrightarrow> connection_subscriptions m ws \<noteq> None \<Longrightarrow>
   mutually_consistent (run_calls calls m) \<and> no_empty_topic (run_calls calls m)"
proof (induction calls arbitrary: m)
  case Nil
  then show ?case by (simp add: run_calls_def)
next
  case (Cons c calls)
  show ?case
  proof (cases c)
    case (Subscribe ws d)
    have reg: "connection_subscriptions m ws \<noteq> None"
      using Cons.prems(3) Subscribe by auto
    have dom_eq: "dom (connection_subscriptions (subscribe ws d m)) = dom (connection_subscriptions m)"
      by (rule subscribe_dom)
    have later: "\<forall>ws' d'. Subscribe ws' d' \<in> set calls \<longrightarrow>
                   connection_subscriptions (subscribe ws d m) ws' \<noteq> None"
      using Cons.prems(3) dom_eq by (metis domIff list.set_intros(2))
    have "mutually_consistent (run_calls calls (subscribe ws d m)) \<and>
          no_empty_topic (run_calls calls (subscribe ws d m))"
      by (rule Cons.IH [OF subscribe_consistent [OF Cons.prems(1) reg]
            subscribe_no_empty [OF Cons.prems(2)] later])
    then show ?thesis by (simp add: run_calls_def Subscribe)
  next
    case (Unsubscribe ws d)
    have dom_eq: "dom (connection_subscriptions (unsubscribe ws d m)) = dom (connection_subscriptions m)"
      by (rule unsubscribe_dom)
    have later: "\<forall>ws' d'. Subscribe ws' d' \<in> set calls \<longrightarrow>
                   connection_subscriptions (unsubscribe ws d m) ws' \<noteq> None"
      using Cons.prems(3) dom_eq by (metis domIff list.set_intros(2))
    have "mutually_consistent (run_calls calls (unsubscribe ws d m)) \<and>
          no_empty_topic (run_calls calls (unsubscribe ws d m))"
      by (rule Cons.IH [OF unsubscribe_consistent [OF Cons.prems(1)]
            unsubscribe_no_empty [OF Cons.prems(2)] later])
    then show ?thesis by (simp add: run_calls_def Unsubscribe)
  qed
qed


lemma disconnect_connections:
  "connection_subscriptions (disconnect c m) = (connection_subscriptions m)(c := None)"
  by (simp add: disconnect_def Let_def)

lemma disconnect_subscribers:
  "device_subscribers (disconnect c m) d =
     (if in_connection_set m c d
      then (case device_subscribers m d of
              None \<Rightarrow> None
            | Some S \<Rightarrow> if set_discard c S = [] then None else Some (set_discard c S))
      else device_subscribers m d)"
  by (simp add: disconnect_def Let_def fold_discard_subscriber_apply in_connection_set_def
        split: option.splits)

lemma disconnect_connection_set:
  "in_connection_set (disconnect c m) ws d = (ws \<noteq> c \<and> in_connection_set m ws d)"
  by (simp add: in_connection_set_def disconnect_connections)

lemma disconnect_topic_set:
  "mutually_consistent m \<Longrightarrow>
   in_topic_set (disconnect c m) ws d = (ws \<noteq> c \<and> in_topic_set m ws d)"
proof -
  assume cons: "mutually_consistent m"
  have eq: "in_connection_set m c d = in_topic_set m c d"
    using cons by (simp add: mutually_consistent_def)
  show ?thesis
    unfolding in_topic_set_def disconnect_subscribers eq
    by (auto simp: in_topic_set_def set_set_discard set_discard_Nil_iff split: option.splits)
qed

lemma disconnect_consistent:
  "mutually_consistent m \<Longrightarrow> mutually_consistent (disconnect c m)"
  by (simp add: mutually_consistent_def disconnect_topic_set disconnect_connection_set)

lemma disconnect_no_empty: "no_empty_topic m \<Longrightarrow> no_empty_topic (disconnect c m)"
  by (auto simp: no_empty_topic_def disconnect_subscribers split: option.splits)

lemma fold_disconnect_connections:
  "connection_subscriptions (fold disconnect cs m) ws =
     (if ws \<in> set cs then None else connection_subscriptions m ws)"
  by (induction cs arbitrary: m) (auto simp: disconnect_connections)

lemma fold_disconnect_consistent:
  "mutually_consistent m \<Longrightarrow> mutually_consistent (fold disconnect cs m)"
  by (induction cs arbitrary: m) (auto simp: disconnect_consistent)

lemma fold_disconnect_topic_set:
  "mutually_consistent m \<Longrightarrow>
   in_topic_set (fold disconnect cs m) ws d = (ws \<notin> set cs \<and> in_topic_set m ws d)"
  by (induction cs arbitrary: m) (auto simp: disconnect_consistent disconnect_topic_set)

lemma send_to_subscriber_result:
  "send_to_subscriber ch d msg ws acc =
     Inr (acc\<lparr>delivered := delivered acc @
                  (if send_succeeds ch d msg ws then [(ws, (''reading'', d, msg))] else []),
              disconnected := disconnected acc @ (if send_fails ch d msg ws then [ws] else [])\<rparr>)"
  by (auto simp: send_to_subscriber_def send_succeeds_def send_fails_def Let_def
        split: option.splits)

lemma gather_send_result:
  "gather (send_to_subscriber ch d msg) xs acc =
     Inr (acc\<lparr>delivered := delivered acc @
                  map (\<lambda>ws. (ws, (''reading'', d, msg))) (filter (send_succeeds ch d msg) xs),
              disconnected := disconnected acc @ filter (send_fails ch d msg) xs\<rparr>)"
proof (induction xs arbitrary: acc)
  case Nil
  show ?case by simp
next
  case (Cons x xs)
  define acc' where "acc' = acc\<lparr>delivered := delivered acc @
        (if send_succeeds ch d msg x then [(x, (''reading'', d, msg))] else []),
      disconnected := disconnected acc @ (if send_fails ch d msg x then [x] else [])\<rparr>"
  have step: "send_to_subscriber ch d msg x acc = Inr acc'"
    unfolding acc'_def by (rule send_to_subscriber_result)
  have "gather (send_to_subscriber ch d msg) (x # xs) acc =
        gather (send_to_subscriber ch d msg) xs acc'"
    by (simp only: gather.simps step sum.case)
  also have "\<dots> = Inr (acc'\<lparr>delivered := delivered acc' @
                  map (\<lambda>ws. (ws, (''reading'', d, msg))) (filter (send_succeeds ch d msg) xs),
              disconnected := disconnected acc' @ filter (send_fails ch d msg) xs\<rparr>)"
    by (rule Cons.IH)
  also have "\<dots> = Inr (acc\<lparr>delivered := delivered acc @
                  map (\<lambda>ws. (ws, (''reading'', d, msg)))
                    (filter (send_succeeds ch d msg) (x # xs)),
              disconnected := disconnected acc @ filter (send_fails ch d msg) (x # xs)\<rparr>)"
    by (simp add: acc'_def)
  finally show ?case .
qed

lemma broadcast_to_device_result:
  "broadcast_to_device ch d msg m =
     Inr (fold disconnect (filter (send_fails ch d msg) (subscribers_of m d)) m,
          map (\<lambda>ws. (ws, (''reading'', d, msg)))
            (filter (send_succeeds ch d msg) (subscribers_of m d)))"
  by (simp add: broadcast_to_device_def subscribers_of_def gather_send_result Let_def
        split: option.splits)


lemma init_manager_consistent: "mutually_consistent init_manager"
  by (simp add: mutually_consistent_def in_topic_set_def in_connection_set_def init_manager_def)

lemma init_manager_no_empty: "no_empty_topic init_manager"
  by (simp add: no_empty_topic_def init_manager_def)

lemma connect_fresh_consistent:
  "mutually_consistent m \<Longrightarrow> connection_subscriptions m ws = None \<Longrightarrow>
   mutually_consistent (connect ws m)"
  by (auto simp: mutually_consistent_def in_topic_set_def in_connection_set_def connect_def
        split: option.splits)

lemma connect_no_empty: "no_empty_topic m \<Longrightarrow> no_empty_topic (connect ws m)"
  by (simp add: no_empty_topic_def connect_def)

lemma example_registry_subscribers:
  "device_subscribers example_registry =
     [''esp32_01'' \<mapsto> [1, 2, 3], ''esp32_02'' \<mapsto> [1]]"
  by (simp add: example_registry_def subscribe_def connect_def init_manager_def set_add_def
        Let_def fun_upd_twist)

lemma example_registry_connections:
  "connection_subscriptions example_registry =
     [1 \<mapsto> [''esp32_01'', ''esp32_02''], 2 \<mapsto> [''esp32_01''], 3 \<mapsto> [''esp32_01'']]"
  by (simp add: example_registry_def subscribe_def connect_def init_manager_def set_add_def
        Let_def)

lemma example_registry_consistent: "mutually_consistent example_registry"
  unfolding mutually_consistent_def in_topic_set_def in_connection_set_def
    example_registry_subscribers example_registry_connections
  by auto

lemma disconnect_topic_set_other:
  "ws \<noteq> c \<Longrightarrow> in_topic_set (disconnect c m) ws d = in_topic_set m ws d"
  unfolding in_topic_set_def disconnect_subscribers
  by (auto simp: set_set_discard set_discard_Nil_iff split: option.splits)

lemma disconnect_topic_set_self:
  "in_topic_set (disconnect c m) c d = (in_topic_set m c d \<and> \<not> in_connection_set m c d)"
  unfolding in_topic_set_def disconnect_subscribers
  by (auto simp: set_set_discard split: option.splits)

lemma fold_disconnect_topic_set_exact:
  "in_topic_set (fold disconnect cs m) ws d =
     (if ws \<in> set cs then in_topic_set m ws d \<and> \<not> in_connection_set m ws d
      else in_topic_set m ws d)"
proof (induction cs arbitrary: m)
  case Nil
  show ?case by simp
next
  case (Cons c cs)
  have "in_topic_set (fold disconnect (c # cs) m) ws d =
        in_topic_set (fold disconnect cs (disconnect c m)) ws d"
    by simp
  also have "\<dots> =
     (if ws \<in> set cs
      then in_topic_set (disconnect c m) ws d \<and> \<not> in_connection_set (disconnect c m) ws d
      else in_topic_set (disconnect c m) ws d)"
    by (rule Cons.IH)
  also have "\<dots> =
     (if ws \<in> set (c # cs) then in_topic_set m ws d \<and> \<not> in_connection_set m ws d
      else in_topic_set m ws d)"
    by (cases "ws = c")
      (auto simp: disconnect_topic_set_self disconnect_topic_set_other disconnect_connection_set)
  finally show ?case .
qed

lemma half_stale_registry_subscribers:
  "device_subscribers half_stale_registry =
     [''esp32_01'' \<mapsto> [1, 2, 3, 7], ''esp32_02'' \<mapsto> [1]]"
  by (simp add: half_stale_registry_def subscribe_def example_registry_subscribers
        set_add_def Let_def fun_upd_twist)

lemma half_stale_registry_connections:
  "connection_subscriptions half_stale_registry = connection_subscriptions example_registry"
  by (simp add: half_stale_registry_def subscribe_def example_registry_connections Let_def)

lemma half_stale_registry_inconsistent: "\<not> mutually_consistent half_stale_registry"
proof
  assume "mutually_consistent half_stale_registry"
  then have "in_topic_set half_stale_registry 7 ''esp32_01'' =
             in_connection_set half_stale_registry 7 ''esp32_01''"
    by (simp add: mutually_consistent_def)
  then show False
    by (simp add: in_topic_set_def in_connection_set_def half_stale_registry_subscribers
          half_stale_registry_connections example_registry_connections)
qed

lemma half_stale_registry_own_1:
  "in_topic_set half_stale_registry 1 d = in_connection_set half_stale_registry 1 d"
  by (auto simp: in_topic_set_def in_connection_set_def half_stale_registry_subscribers
        half_stale_registry_connections example_registry_connections)

text \<open>
  Claim C3. From a registry whose two mappings are mutually consistent and that has no
  empty topic set, every sequence of subscribe and unsubscribe calls whose subscribe
  calls name registered connections keeps both properties after each of its calls.
  Neither call changes the set of registered connections, so being registered at the
  start is being registered at the time of the call.
\<close>

theorem subscription_index_invariant:
  assumes "mutually_consistent m" and "no_empty_topic m"
    and "\<forall>ws d. Subscribe ws d \<in> set calls \<longrightarrow> connection_subscriptions m ws \<noteq> None"
  shows "\<forall>n. mutually_consistent (run_calls (take n calls) m) \<and>
             no_empty_topic (run_calls (take n calls) m)"
proof
  fix n
  have "\<forall>ws d. Subscribe ws d \<in> set (take n calls) \<longrightarrow> connection_subscriptions m ws \<noteq> None"
    using assms(3) by (meson in_set_takeD)
  then show "mutually_consistent (run_calls (take n calls) m) \<and>
             no_empty_topic (run_calls (take n calls) m)"
    by (rule run_calls_invariant [OF assms(1) assms(2)])
qed

theorem subscription_index_invariant_witness:
  "mutually_consistent (connect (1::nat) init_manager) \<and>
   no_empty_topic (connect (1::nat) init_manager) \<and>
   connection_subscriptions (connect (1::nat) init_manager) 1 \<noteq> None \<and>
   (\<forall>n. mutually_consistent
          (run_calls (take n [Subscribe 1 ''esp32_01'', Subscribe 1 ''esp32_02'',
                              Unsubscribe 1 ''esp32_01'', Unsubscribe 2 ''esp32_02''])
             (connect (1::nat) init_manager)) \<and>
        no_empty_topic
          (run_calls (take n [Subscribe 1 ''esp32_01'', Subscribe 1 ''esp32_02'',
                              Unsubscribe 1 ''esp32_01'', Unsubscribe 2 ''esp32_02''])
             (connect (1::nat) init_manager)))"
proof -
  have c: "mutually_consistent (connect (1::nat) init_manager)"
    by (rule connect_fresh_consistent [OF init_manager_consistent])
      (simp add: init_manager_def)
  have e: "no_empty_topic (connect (1::nat) init_manager)"
    by (simp add: connect_no_empty init_manager_no_empty)
  have r: "\<forall>ws d. Subscribe ws d \<in> set [Subscribe 1 ''esp32_01'', Subscribe 1 ''esp32_02'',
                                   Unsubscribe 1 ''esp32_01'', Unsubscribe 2 ''esp32_02'']
      \<longrightarrow> connection_subscriptions (connect (1::nat) init_manager) ws \<noteq> None"
    by (auto simp: connect_def)
  have reg: "connection_subscriptions (connect (1::nat) init_manager) 1 \<noteq> None"
    by (simp add: connect_def)
  show ?thesis
    using c e reg subscription_index_invariant [OF c e r] by blast
qed

text \<open>
  Claim C7, amended. \<open>disconnect c\<close> always removes \<open>c\<close> from the connection index
  and leaves every other connection in the topic sets it was in; afterwards \<open>c\<close> is in
  a topic's set exactly when it was there without the topic being in \<open>c\<close>'s own set.
  So whenever the own entries of \<open>c\<close> agree (\<open>c\<close> is in a topic's subscriber set iff the
  topic is in the topic set of \<open>c\<close>), whatever the entries of other connections,
  \<open>disconnect c\<close> removes \<open>c\<close> from every topic's subscriber set, deletes exactly the
  topics whose set becomes empty by the removal, and leaves the topic mapping unchanged
  when \<open>c\<close> was subscribed to nothing.
\<close>

theorem disconnect_unregisters:
  "connection_subscriptions (disconnect c m) = (connection_subscriptions m)(c := None) \<and>
   (\<forall>ws d. ws \<noteq> c \<longrightarrow> in_topic_set (disconnect c m) ws d = in_topic_set m ws d) \<and>
   (\<forall>d. in_topic_set (disconnect c m) c d =
          (in_topic_set m c d \<and> \<not> in_connection_set m c d)) \<and>
   ((\<forall>d. in_topic_set m c d = in_connection_set m c d) \<longrightarrow>
      (\<forall>d. \<not> in_topic_set (disconnect c m) c d) \<and>
      (\<forall>d. device_subscribers (disconnect c m) d =
         (case device_subscribers m d of
            None \<Rightarrow> None
          | Some S \<Rightarrow> if c \<in> set S
                      then (if set_discard c S = [] then None else Some (set_discard c S))
                      else Some S)) \<and>
      ((\<forall>d. \<not> in_topic_set m c d) \<longrightarrow>
         device_subscribers (disconnect c m) = device_subscribers m))"
proof -
  have agree: "(\<forall>d. in_topic_set m c d = in_connection_set m c d) \<longrightarrow>
      (\<forall>d. \<not> in_topic_set (disconnect c m) c d) \<and>
      (\<forall>d. device_subscribers (disconnect c m) d =
         (case device_subscribers m d of
            None \<Rightarrow> None
          | Some S \<Rightarrow> if c \<in> set S
                      then (if set_discard c S = [] then None else Some (set_discard c S))
                      else Some S)) \<and>
      ((\<forall>d. \<not> in_topic_set m c d) \<longrightarrow>
         device_subscribers (disconnect c m) = device_subscribers m)"
  proof
    assume own: "\<forall>d. in_topic_set m c d = in_connection_set m c d"
    have eq: "\<And>d. in_connection_set m c d = in_topic_set m c d"
      using own by simp
    have gone: "\<forall>d. \<not> in_topic_set (disconnect c m) c d"
      by (simp add: disconnect_topic_set_self own)
    have subs: "\<forall>d. device_subscribers (disconnect c m) d =
            (case device_subscribers m d of
               None \<Rightarrow> None
             | Some S \<Rightarrow> if c \<in> set S
                         then (if set_discard c S = [] then None else Some (set_discard c S))
                         else Some S)"
      unfolding disconnect_subscribers eq
      by (simp add: in_topic_set_def split: option.splits)
    have never: "(\<forall>d. \<not> in_topic_set m c d) \<longrightarrow>
            device_subscribers (disconnect c m) = device_subscribers m"
    proof
      assume none: "\<forall>d. \<not> in_topic_set m c d"
      show "device_subscribers (disconnect c m) = device_subscribers m"
      proof
        fix d
        show "device_subscribers (disconnect c m) d = device_subscribers m d"
          using none by (simp add: disconnect_subscribers eq)
      qed
    qed
    show "(\<forall>d. \<not> in_topic_set (disconnect c m) c d) \<and>
      (\<forall>d. device_subscribers (disconnect c m) d =
         (case device_subscribers m d of
            None \<Rightarrow> None
          | Some S \<Rightarrow> if c \<in> set S
                      then (if set_discard c S = [] then None else Some (set_discard c S))
                      else Some S)) \<and>
      ((\<forall>d. \<not> in_topic_set m c d) \<longrightarrow>
         device_subscribers (disconnect c m) = device_subscribers m)"
      using gone subs never by blast
  qed
  show ?thesis
    using agree
    by (simp add: disconnect_connections disconnect_topic_set_other disconnect_topic_set_self)
qed

theorem disconnect_unregisters_witness:
  "\<not> mutually_consistent half_stale_registry \<and>
   (\<forall>d. in_topic_set half_stale_registry 1 d = in_connection_set half_stale_registry 1 d) \<and>
   connection_subscriptions (disconnect 1 half_stale_registry) 1 = None \<and>
   device_subscribers (disconnect 1 half_stale_registry) ''esp32_01'' = Some [2, 3, 7] \<and>
   device_subscribers (disconnect 1 half_stale_registry) ''esp32_02'' = None \<and>
   (\<forall>d. \<not> in_topic_set (disconnect 1 half_stale_registry) 1 d)"
proof -
  have own: "\<forall>d. in_topic_set half_stale_registry 1 d = in_connection_set half_stale_registry 1 d"
    by (rule allI) (rule half_stale_registry_own_1)
  note t = disconnect_unregisters [of 1 half_stale_registry]
  have a: "device_subscribers (disconnect 1 half_stale_registry) ''esp32_01'' = Some [2, 3, 7]"
    using t own by (simp add: half_stale_registry_subscribers set_discard_def)
  have b: "device_subscribers (disconnect 1 half_stale_registry) ''esp32_02'' = None"
    using t own by (simp add: half_stale_registry_subscribers set_discard_def)
  have g: "\<forall>d. \<not> in_topic_set (disconnect 1 half_stale_registry) 1 d"
    using t own by blast
  have i: "connection_subscriptions (disconnect 1 half_stale_registry) 1 = None"
    using t by simp
  show ?thesis
    using own a b g i half_stale_registry_inconsistent by blast
qed

text \<open>
  When the own entries of \<open>c\<close> disagree the claim fails: after \<open>subscribe\<close> on a
  connection that was never registered, \<open>disconnect\<close> finds no topics to clean and the
  connection stays in the topic's subscriber set.
\<close>

theorem disconnect_every_state_counterexample:
  "in_topic_set (disconnect (1::nat) (subscribe 1 ''esp32_01'' init_manager)) 1 ''esp32_01''"
  by (simp add: in_topic_set_def disconnect_def subscribe_def init_manager_def set_add_def
        Let_def)

text \<open>
  Claim C10. \<open>subscribe\<close> on a connection that is not in the connection index adds it to
  the topic's subscriber set and leaves the connection index without it; the two
  mappings are then inconsistent, and a following \<open>disconnect\<close> of that connection
  leaves the topic mapping as it is, with the connection still in the topic's set.
\<close>

theorem subscribe_unregistered:
  assumes "connection_subscriptions m c = None"
  shows "in_topic_set (subscribe c d m) c d \<and>
         connection_subscriptions (subscribe c d m) = connection_subscriptions m \<and>
         connection_subscriptions (subscribe c d m) c = None \<and>
         \<not> in_connection_set (subscribe c d m) c d \<and>
         \<not> mutually_consistent (subscribe c d m) \<and>
         device_subscribers (disconnect c (subscribe c d m)) =
           device_subscribers (subscribe c d m) \<and>
         in_topic_set (disconnect c (subscribe c d m)) c d"
proof -
  have conns: "connection_subscriptions (subscribe c d m) = connection_subscriptions m"
    using assms by (simp add: subscribe_def Let_def)
  have topic: "in_topic_set (subscribe c d m) c d"
    by (simp add: subscribe_topic)
  have conn: "\<not> in_connection_set (subscribe c d m) c d"
    using assms by (simp add: in_connection_set_def conns)
  have incons: "\<not> mutually_consistent (subscribe c d m)"
    using topic conn unfolding mutually_consistent_def by blast
  have subs: "device_subscribers (disconnect c (subscribe c d m)) =
              device_subscribers (subscribe c d m)"
    using assms by (simp add: disconnect_def Let_def conns)
  have still: "in_topic_set (disconnect c (subscribe c d m)) c d"
    using topic by (simp add: in_topic_set_def subs)
  show ?thesis
    using conns topic conn incons subs still assms by simp
qed

theorem subscribe_unregistered_witness:
  "connection_subscriptions (disconnect (7::nat) (connect 7 init_manager)) 7 = None \<and>
   in_topic_set (subscribe 7 ''esp32_01'' (disconnect (7::nat) (connect 7 init_manager)))
     7 ''esp32_01'' \<and>
   \<not> mutually_consistent
       (subscribe 7 ''esp32_01'' (disconnect (7::nat) (connect 7 init_manager))) \<and>
   device_subscribers
     (disconnect 7 (subscribe 7 ''esp32_01'' (disconnect (7::nat) (connect 7 init_manager))))
     ''esp32_01'' = Some [7]"
proof -
  have h: "connection_subscriptions (disconnect (7::nat) (connect 7 init_manager)) 7 = None"
    by (simp add: disconnect_connections)
  have s: "device_subscribers
             (subscribe 7 ''esp32_01'' (disconnect (7::nat) (connect 7 init_manager)))
             ''esp32_01'' = Some [7]"
    by (simp add: subscribe_def disconnect_def connect_def init_manager_def set_add_def Let_def)
  show ?thesis
    using h s subscribe_unregistered [OF h, of "''esp32_01''"] by simp
qed

text \<open>
  Claim C5, amended. \<open>broadcast_to_device\<close> always returns normally. Every subscriber
  of the snapshot whose send succeeds receives the payload, whatever happens to the
  other sends. The registry returned is the one obtained by calling \<open>disconnect\<close>,
  after the fan-out, on each subscriber whose send raised: each of them is out of the
  connection index, and is afterwards in a topic's set exactly when it was there
  without the topic being in its own set. So a failed subscriber whose own entries
  agree is out of every topic set.
\<close>

theorem broadcast_isolates_failures:
  "\<exists>m' sent.
     broadcast_to_device ch d msg m = Inr (m', sent) \<and>
     sent = map (\<lambda>ws. (ws, (''reading'', d, msg)))
              (filter (send_succeeds ch d msg) (subscribers_of m d)) \<and>
     (\<forall>ws \<in> set (subscribers_of m d).
        send_succeeds ch d msg ws \<longrightarrow> (ws, (''reading'', d, msg)) \<in> set sent) \<and>
     m' = fold disconnect (filter (send_fails ch d msg) (subscribers_of m d)) m \<and>
     (\<forall>ws \<in> set (subscribers_of m d).
        send_fails ch d msg ws \<longrightarrow>
          connection_subscriptions m' ws = None \<and>
          (\<forall>d'. in_topic_set m' ws d' =
                  (in_topic_set m ws d' \<and> \<not> in_connection_set m ws d')) \<and>
          ((\<forall>d'. in_topic_set m ws d' = in_connection_set m ws d') \<longrightarrow>
             (\<forall>d'. \<not> in_topic_set m' ws d')))"
  unfolding broadcast_to_device_result
  by (auto simp: fold_disconnect_connections fold_disconnect_topic_set_exact)

theorem broadcast_isolates_failures_witness:
  "\<exists>m' sent.
     broadcast_to_device example_channel ''esp32_01'' ''payload'' example_registry
       = Inr (m', sent) \<and>
     sent = [(1, (''reading'', ''esp32_01'', ''payload'')),
             (3, (''reading'', ''esp32_01'', ''payload''))] \<and>
     send_fails example_channel ''esp32_01'' ''payload'' 2 \<and>
     connection_subscriptions m' 2 = None \<and>
     (\<forall>d'. \<not> in_topic_set m' 2 d') \<and>
     m' = disconnect 2 example_registry"
proof -
  have subs: "subscribers_of example_registry ''esp32_01'' = [1, 2, 3]"
    by (simp add: subscribers_of_def example_registry_subscribers)
  have ok: "filter (send_succeeds example_channel ''esp32_01'' ''payload'') [1, 2, 3] = [1, 3]"
    by (simp add: send_succeeds_def example_channel_def)
  have bad: "filter (send_fails example_channel ''esp32_01'' ''payload'') [1, 2, 3] = [2]"
    by (simp add: send_fails_def example_channel_def)
  have f: "send_fails example_channel ''esp32_01'' ''payload'' 2"
    by (simp add: send_fails_def example_channel_def)
  have own: "\<forall>d'. in_topic_set example_registry 2 d' = in_connection_set example_registry 2 d'"
    using example_registry_consistent by (simp add: mutually_consistent_def)
  note t = broadcast_isolates_failures
      [of example_channel "''esp32_01''" "''payload''" example_registry,
       unfolded subs ok bad]
  show ?thesis
    using t own f by auto
qed

text \<open>
  A failed subscriber is not always unregistered: a connection that was subscribed after
  its disconnect is in the topic's set and not in the connection index; its send fails,
  \<open>disconnect\<close> is called on it and cleans nothing, and it is still a subscriber after
  the broadcast.
\<close>

theorem broadcast_stale_subscriber_counterexample:
  "send_fails failing_channel ''esp32_01'' ''payload'' 7 \<and>
   subscribers_of stale_registry ''esp32_01'' = [7] \<and>
   broadcast_to_device failing_channel ''esp32_01'' ''payload'' stale_registry =
     Inr (disconnect 7 stale_registry, []) \<and>
   in_topic_set (disconnect 7 stale_registry) 7 ''esp32_01''"
  by (simp add: send_fails_def failing_channel_def subscribers_of_def stale_registry_def
        broadcast_to_device_def send_to_subscriber_def in_topic_set_def
        subscribe_def disconnect_def connect_def init_manager_def set_add_def Let_def)

section \<open>Time ranges and the aggregation cache\<close>


lemmas time_range_defs =
  TimeRange_last_def match_duration_def lower_def lower_char_def is_digit_def is_unit_def
  int_of_digits_def mk_timedelta_def datetime_sub_def TimeRange_init_def us_per_day_def

lemmas datetime_defs =
  mk_datetime_def ymd2ord_def days_before_year_def days_before_month_def days_in_month_def
  is_leap_def us_per_day_def

lemma mk_datetime_2024_01_15: "mk_datetime 2024 1 15 12 0 0 = Inr 63841003200000000"
  by (simp add: datetime_defs Let_def)

lemma mk_datetime_2024_01_14: "mk_datetime 2024 1 14 12 0 0 = Inr 63840916800000000"
  by (simp add: datetime_defs Let_def)

lemma last_24h:
  "TimeRange_last ''24h'' (Some 63841003200000000) utcnow =
     Inr \<lparr>range_start = 63840916800000000, range_end = 63841003200000000\<rparr>"
  by (simp add: time_range_defs Let_def)

lemma last_bad: "TimeRange_last ''bad'' now_arg utcnow = Inl (ValueError ''Invalid duration format'')"
  by (simp add: time_range_defs Let_def)

text \<open>
  Claim C9. With \<open>now\<close> = 2024-01-15T12:00:00, \<open>TimeRange.last("24h")\<close> is the range from
  2024-01-14T12:00:00 to 2024-01-15T12:00:00, and \<open>TimeRange.last("bad")\<close> raises the
  \<open>ValueError\<close> for a malformed duration string, whatever the clock.
\<close>

theorem time_range_last_examples:
  "(case (mk_datetime 2024 1 15 12 0 0, mk_datetime 2024 1 14 12 0 0) of
      (Inr now, Inr day_before) \<Rightarrow>
        TimeRange_last ''24h'' (Some now) utcnow =
          Inr \<lparr>range_start = day_before, range_end = now\<rparr>
    | _ \<Rightarrow> False) \<and>
   TimeRange_last ''bad'' now_arg utcnow = Inl (ValueError ''Invalid duration format'')"
  by (simp add: mk_datetime_2024_01_15 mk_datetime_2024_01_14 last_24h last_bad)


lemma get_cached_hit:
  "map_of cache key = Some (cached_at, v) \<Longrightarrow> now1 - cached_at \<le> ttl * 1000000 \<Longrightarrow>
   get_cached ttl now1 key cache = (Some v, cache)"
  by (simp add: get_cached_def)

lemma get_cached_expired:
  "map_of cache key = Some (cached_at, v) \<Longrightarrow> now1 - cached_at > ttl * 1000000 \<Longrightarrow>
   get_cached ttl now1 key cache = (None, AList.delete key cache)"
  by (simp add: get_cached_def)

lemma get_cached_absent:
  "map_of cache key = None \<Longrightarrow> get_cached ttl now1 key cache = (None, cache)"
  by (simp add: get_cached_def)

lemma get_cached_miss_cache:
  "get_cached ttl now1 key cache = (None, cache') \<Longrightarrow>
   map_of cache' = (map_of cache)(key := None) \<and> (map_of cache key = None \<longrightarrow> cache' = cache)"
  by (auto simp: get_cached_def delete_conv' split: option.splits if_splits)

lemma map_of_set_cached:
  "map_of (set_cached now2 key v cache) = (map_of cache)(key \<mapsto> (now2, v))"
  by (simp add: set_cached_def update_conv')

text \<open>
  Claim C6. For every key with a cached entry: when the entry's age is at most the TTL,
  \<open>_get_cached\<close> returns its value and \<open>get_device_stats\<close> (for the device and range
  string that build this key, a range string that parses) returns it without calling
  \<open>get_stats\<close> and without touching the cache; when the age exceeds the TTL, the
  lookup misses, \<open>get_stats\<close> is called once and its result is stored under the key
  with the timestamp read by \<open>_set_cached\<close>.
\<close>

theorem cache_hit_and_expiry:
  assumes "map_of cache key = Some (cached_at, v)"
  shows "(now1 - cached_at \<le> ttl * 1000000 \<longrightarrow>
            get_cached ttl now1 key cache = (Some v, cache)) \<and>
         (now1 - cached_at > ttl * 1000000 \<longrightarrow>
            get_cached ttl now1 key cache = (None, AList.delete key cache)) \<and>
         (key = cache_key d r \<and> TimeRange_last r None now0 = Inr tr \<longrightarrow>
            (now1 - cached_at \<le> ttl * 1000000 \<longrightarrow>
               get_device_stats ttl get_stats now0 now1 now2 d r cache = (Inr v, cache, [])) \<and>
            (now1 - cached_at > ttl * 1000000 \<longrightarrow>
               (\<forall>stats. get_stats d tr = Inr stats \<longrightarrow>
                  get_device_stats ttl get_stats now0 now1 now2 d r cache =
                    (Inr stats, set_cached now2 key stats (AList.delete key cache), [(d, tr)]) \<and>
                  map_of (set_cached now2 key stats (AList.delete key cache)) key =
                    Some (now2, stats))))"
proof -
  have hit: "now1 - cached_at \<le> ttl * 1000000 \<Longrightarrow>
             get_cached ttl now1 key cache = (Some v, cache)"
    by (rule get_cached_hit [OF assms])
  have expired: "now1 - cached_at > ttl * 1000000 \<Longrightarrow>
                 get_cached ttl now1 key cache = (None, AList.delete key cache)"
    by (rule get_cached_expired [OF assms])
  show ?thesis
    using hit expired
    by (auto simp: get_device_stats_def map_of_set_cached)
qed

theorem cache_hit_and_expiry_witness:
  "get_device_stats 60 (\<lambda>d tr. Inr (5::nat)) example_now example_now example_now
     ''esp32_01'' ''24h'' [(example_key, (example_now - 60000000, 4))] =
     (Inr 4, [(example_key, (example_now - 60000000, 4))], []) \<and>
   get_device_stats 60 (\<lambda>d tr. Inr (5::nat)) example_now example_now example_now
     ''esp32_01'' ''24h'' [(example_key, (example_now - 61000000, 4))] =
     (Inr 5, [(example_key, (example_now, 5))],
      [(''esp32_01'', \<lparr>range_start = 63840916800000000, range_end = 63841003200000000\<rparr>)])"
proof -
  have k: "example_key = cache_key ''esp32_01'' ''24h''"
    by (simp add: example_key_def cache_key_def)
  have tr: "TimeRange_last ''24h'' None example_now =
              Inr \<lparr>range_start = 63840916800000000, range_end = 63841003200000000\<rparr>"
    by (simp add: example_now_def time_range_defs Let_def)
  have e1: "map_of [(example_key, (example_now - 60000000, 4::nat))] example_key =
              Some (example_now - 60000000, 4)"
    by simp
  have e2: "map_of [(example_key, (example_now - 61000000, 4::nat))] example_key =
              Some (example_now - 61000000, 4)"
    by simp
  note t1 = cache_hit_and_expiry [OF e1, of example_now 60 "''esp32_01''" "''24h''" example_now
      "\<lparr>range_start = 63840916800000000, range_end = 63841003200000000\<rparr>"
      "\<lambda>d tr. Inr (5::nat)" example_now]
  note t2 = cache_hit_and_expiry [OF e2, of example_now 60 "''esp32_01''" "''24h''" example_now
      "\<lparr>range_start = 63840916800000000, range_end = 63841003200000000\<rparr>"
      "\<lambda>d tr. Inr (5::nat)" example_now]
  have a: "get_device_stats 60 (\<lambda>d tr. Inr (5::nat)) example_now example_now example_now
     ''esp32_01'' ''24h'' [(example_key, (example_now - 60000000, 4))] =
     (Inr 4, [(example_key, (example_now - 60000000, 4))], [])"
    using t1 k tr by simp
  have b: "get_device_stats 60 (\<lambda>d tr. Inr (5::nat)) example_now example_now example_now
     ''esp32_01'' ''24h'' [(example_key, (example_now - 61000000, 4))] =
     (Inr 5, [(example_key, (example_now, 5))],
      [(''esp32_01'', \<lparr>range_start = 63840916800000000, range_end = 63841003200000000\<rparr>)])"
    using t2 k tr by (simp add: set_cached_def)
  show ?thesis using a b by simp
qed

text \<open>
  Claim C8, amended. When \<open>get_stats\<close> raises on a cache miss, \<open>get_device_stats\<close>
  raises the same exception and stores nothing: the cache afterwards has no entry for
  the key and every other entry as before. It is the cache of before when the key was
  absent; when the miss came from an expired entry, that entry has been deleted by the
  lookup.
\<close>

theorem failed_compute_not_cached:
  assumes "TimeRange_last r None now0 = Inr tr"
    and "get_stats d tr = Inl e"
    and "fst (get_cached ttl now1 (cache_key d r) cache) = None"
  shows "\<exists>cache'.
           get_device_stats ttl get_stats now0 now1 now2 d r cache = (Inl e, cache', [(d, tr)]) \<and>
           map_of cache' = (map_of cache)(cache_key d r := None) \<and>
           (map_of cache (cache_key d r) = None \<longrightarrow> cache' = cache)"
proof -
  obtain cache' where g: "get_cached ttl now1 (cache_key d r) cache = (None, cache')"
    using assms(3) by (cases "get_cached ttl now1 (cache_key d r) cache") auto
  have res: "get_device_stats ttl get_stats now0 now1 now2 d r cache = (Inl e, cache', [(d, tr)])"
    by (simp add: get_device_stats_def assms(1) assms(2) g)
  have "get_device_stats ttl get_stats now0 now1 now2 d r cache = (Inl e, cache', [(d, tr)]) \<and>
        map_of cache' = (map_of cache)(cache_key d r := None) \<and>
        (map_of cache (cache_key d r) = None \<longrightarrow> cache' = cache)"
    using res get_cached_miss_cache [OF g] by simp
  then show ?thesis by (rule exI)
qed

theorem failed_compute_not_cached_witness:
  "\<exists>cache'.
     get_device_stats 60 (\<lambda>d tr. Inl (OtherException ''store unavailable'') :: exn + nat)
       example_now example_now example_now ''esp32_01'' ''24h''
       [(example_key, (example_now - 61000000, 4)), (''stats:esp32_02:24h'', (example_now, 9))]
       = (Inl (OtherException ''store unavailable''), cache',
          [(''esp32_01'', \<lparr>range_start = 63840916800000000, range_end = 63841003200000000\<rparr>)]) \<and>
     map_of cache' example_key = None \<and>
     map_of cache' ''stats:esp32_02:24h'' = Some (example_now, 9)"
proof -
  have k: "cache_key ''esp32_01'' ''24h'' = example_key"
    by (simp add: example_key_def cache_key_def)
  have tr: "TimeRange_last ''24h'' None example_now =
              Inr \<lparr>range_start = 63840916800000000, range_end = 63841003200000000\<rparr>"
    by (simp add: example_now_def time_range_defs Let_def)
  have st: "(\<lambda>d tr. Inl (OtherException ''store unavailable'') :: exn + nat) ''esp32_01''
              \<lparr>range_start = 63840916800000000, range_end = 63841003200000000\<rparr> =
            Inl (OtherException ''store unavailable'')"
    by simp
  have miss: "fst (get_cached 60 example_now (cache_key ''esp32_01'' ''24h'')
                [(example_key, (example_now - 61000000, 4::nat)),
                 (''stats:esp32_02:24h'', (example_now, 9))]) = None"
    by (simp add: k get_cached_def)
  note t = failed_compute_not_cached [OF tr st miss, of example_now]
  show ?thesis
    using t by (auto simp: k example_key_def)
qed

text \<open>
  The cache is not always left unchanged: with a 61 seconds old entry and a TTL of 60
  the lookup deletes the entry before \<open>get_stats\<close> raises.
\<close>

theorem failed_compute_cache_changed_counterexample:
  "fst (get_device_stats 60 (\<lambda>d tr. Inl (OtherException ''store unavailable'') :: exn + nat)
          example_now example_now example_now ''esp32_01'' ''24h''
          [(example_key, (example_now - 61000000, 4))]) = Inl (OtherException ''store unavailable'') \<and>
   fst (snd (get_device_stats 60 (\<lambda>d tr. Inl (OtherException ''store unavailable'') :: exn + nat)
          example_now example_now example_now ''esp32_01'' ''24h''
          [(example_key, (example_now - 61000000, 4))]))
     \<noteq> [(example_key, (example_now - 61000000, 4))]"
proof -
  have tr: "TimeRange_last ''24h'' None example_now =
              Inr \<lparr>range_start = 63840916800000000, range_end = 63841003200000000\<rparr>"
    by (simp add: example_now_def time_range_defs Let_def)
  show ?thesis
    by (simp add: get_device_stats_def tr get_cached_def cache_key_def example_key_def)
qed

text \<open>
  Claim C2, at the input where the code departs from it. \<open>clear_cache("esp32_1")\<close>
  also removes the entry of device \<open>esp32_10\<close>, whose key contains \<open>esp32_1\<close> as a
  substring although it is not a key of device \<open>esp32_1\<close>.
\<close>

theorem clear_cache_removes_other_device:
  "clear_cache (Some ''esp32_1'')
     [(''stats:esp32_1:24h'', (example_now, 1::nat)),
      (''stats:esp32_10:24h'', (example_now, 2)),
      (''stats:esp32_02:24h'', (example_now, 3))]
     = [(''stats:esp32_02:24h'', (example_now, 3))] \<and>
   key_of_device ''esp32_10'' ''stats:esp32_10:24h'' \<and>
   \<not> key_of_device ''esp32_1'' ''stats:esp32_10:24h''"
  by (simp add: clear_cache_def key_of_device_def)

section \<open>Ingestion\<close>


lemma strip_esp32_01: "strip ''esp32_01'' = ''esp32_01''"
  by (simp add: strip_def is_space_def)

lemma from_dict_errors: "from_dict data = Inl e \<Longrightarrow> \<exists>msg. e = ValueError msg"
  by (auto simp: from_dict_def SensorMetrics_init_def split: if_splits)

lemma ingest_failure_no_effect:
  "ingest keys hw now nid d data api_key w = (Inl e, w') \<Longrightarrow> w' = w"
  by (auto simp: ingest_def Let_def split: if_splits option.splits sum.splits exn.splits)

lemma ingest_success_effects:
  "ingest keys hw now nid d data api_key w = (Inr r, w') \<Longrightarrow>
   effects w' = effects w @ [ReadingCreate r, UpdateLastSeen d now] @
                  (if hw then [BroadcastToDevice d r] else []) \<and>
   readings w' = readings w @ [r]"
  by (auto simp: ingest_def Let_def reading_repo_create_def update_last_seen_def
        ws_broadcast_to_device_def split: if_splits option.splits sum.splits exn.splits)

text \<open>
  Claim C1, at the input where the code departs from it. A successful ingestion for
  \<open>esp32_01\<close> writes the reading once, updates last-seen once and then broadcasts once,
  to the topic \<open>esp32_01\<close>; there is no broadcast to the topic \<open>__all__\<close>, and a
  broadcast to \<open>esp32_01\<close> delivers nothing to a client of \<open>/stream/all\<close>, which is
  subscribed to \<open>__all__\<close> only.
\<close>

theorem ingest_broadcasts_own_topic_only:
  "fst (ingest [''key-1''] True example_now 7 ''esp32_01'' [''temperature'' \<mapsto> Finite 25]
          (Some ''key-1'') example_world) = Inr example_reading \<and>
   effects (snd (ingest [''key-1''] True example_now 7 ''esp32_01''
          [''temperature'' \<mapsto> Finite 25] (Some ''key-1'') example_world)) =
     [ReadingCreate example_reading, UpdateLastSeen ''esp32_01'' example_now,
      BroadcastToDevice ''esp32_01'' example_reading] \<and>
   broadcast_to_device example_channel ''esp32_01'' ''payload''
       (stream_all_devices_open 9 init_manager) =
     Inr (stream_all_devices_open 9 init_manager, [])"
  by (simp add: ingest_def get_by_id_def example_world_def example_device_def from_dict_def
        SensorMetrics_init_def out_of_range_def between_def TEMP_MIN_def TEMP_MAX_def
        has_any_metric_def
        Reading_create_def strip_esp32_01 reading_repo_create_def update_last_seen_def
        ws_broadcast_to_device_def example_reading_def Let_def
        broadcast_to_device_def stream_all_devices_open_def subscribe_def connect_def
        init_manager_def ALL_DEVICES_def)

text \<open>
  Claim C4. A missing, empty or unknown API key raises \<open>AuthenticationError\<close>; with a
  valid key, an unknown device raises \<open>DeviceNotFoundError\<close>, an inactive one
  \<open>DeviceInactiveError\<close>, and metrics that the value object rejects or that are all
  absent raise \<open>InvalidPayloadError\<close>; a temperature outside -40..85 is rejected by the
  value object. Every call that raises leaves the stores and the record of effects as
  they were: no store write, no last-seen update, no broadcast.
\<close>

theorem ingest_validation_failure:
  "(api_key = None \<or> api_key = Some [] \<or> (\<exists>k. api_key = Some k \<and> k \<notin> set keys) \<longrightarrow>
      ingest keys hw now nid d data api_key w = (Inl AuthenticationError, w)) \<and>
   ((\<exists>k. api_key = Some k \<and> k \<noteq> [] \<and> k \<in> set keys) \<longrightarrow>
      (devices w d = None \<longrightarrow>
         ingest keys hw now nid d data api_key w = (Inl (DeviceNotFoundError d), w)) \<and>
      (\<forall>dev. devices w d = Some dev \<and> \<not> is_active dev \<longrightarrow>
         ingest keys hw now nid d data api_key w = (Inl (DeviceInactiveError d), w)) \<and>
      (\<forall>dev. devices w d = Some dev \<and> is_active dev \<longrightarrow>
         (\<forall>msg. from_dict data = Inl (ValueError msg) \<longrightarrow>
            ingest keys hw now nid d data api_key w = (Inl (InvalidPayloadError msg), w)) \<and>
         (\<forall>metrics. from_dict data = Inr metrics \<and> \<not> has_any_metric metrics \<longrightarrow>
            ingest keys hw now nid d data api_key w =
              (Inl (InvalidPayloadError ''At least one metric value is required''), w)))) \<and>
   (\<forall>t. data ''temperature'' = Some t \<and> \<not> between (- 40) t 85 \<longrightarrow>
      from_dict data = Inl (ValueError ''Temperature must be between -40.0 and 85.0'')) \<and>
   (\<forall>e w'. ingest keys hw now nid d data api_key w = (Inl e, w') \<longrightarrow> w' = w)"
proof -
  have auth: "api_key = None \<or> api_key = Some [] \<or> (\<exists>k. api_key = Some k \<and> k \<notin> set keys) \<longrightarrow>
      ingest keys hw now nid d data api_key w = (Inl AuthenticationError, w)"
    by (auto simp: ingest_def)
  have rest: "(\<exists>k. api_key = Some k \<and> k \<noteq> [] \<and> k \<in> set keys) \<longrightarrow>
      (devices w d = None \<longrightarrow>
         ingest keys hw now nid d data api_key w = (Inl (DeviceNotFoundError d), w)) \<and>
      (\<forall>dev. devices w d = Some dev \<and> \<not> is_active dev \<longrightarrow>
         ingest keys hw now nid d data api_key w = (Inl (DeviceInactiveError d), w)) \<and>
      (\<forall>dev. devices w d = Some dev \<and> is_active dev \<longrightarrow>
         (\<forall>msg. from_dict data = Inl (ValueError msg) \<longrightarrow>
            ingest keys hw now nid d data api_key w = (Inl (InvalidPayloadError msg), w)) \<and>
         (\<forall>metrics. from_dict data = Inr metrics \<and> \<not> has_any_metric metrics \<longrightarrow>
            ingest keys hw now nid d data api_key w =
              (Inl (InvalidPayloadError ''At least one metric value is required''), w)))"
    by (auto simp: ingest_def get_by_id_def)
  have temp: "\<forall>t. data ''temperature'' = Some t \<and> \<not> between (- 40) t 85 \<longrightarrow>
      from_dict data = Inl (ValueError ''Temperature must be between -40.0 and 85.0'')"
    by (simp add: from_dict_def SensorMetrics_init_def out_of_range_def TEMP_MIN_def
          TEMP_MAX_def)
  have frame: "\<forall>e w'. ingest keys hw now nid d data api_key w = (Inl e, w') \<longrightarrow> w' = w"
    using ingest_failure_no_effect by blast
  show ?thesis
    using auth rest temp frame by blast
qed

theorem ingest_validation_failure_witness:
  "ingest [''key-1''] True example_now 7 ''esp32_01'' [''temperature'' \<mapsto> Finite 90]
     (Some ''key-1'') example_world =
     (Inl (InvalidPayloadError ''Temperature must be between -40.0 and 85.0''), example_world) \<and>
   effects example_world = [] \<and> readings example_world = [] \<and>
   ingest [''key-1''] True example_now 7 ''esp32_01'' [''temperature'' \<mapsto> Finite 25]
     None example_world = (Inl AuthenticationError, example_world) \<and>
   ingest [''key-1''] True example_now 7 ''esp32_02'' [''temperature'' \<mapsto> Finite 25]
     (Some ''key-1'') example_world = (Inl (DeviceNotFoundError ''esp32_02''), example_world)"
proof -
  note t = ingest_validation_failure [of "Some ''key-1''" "[''key-1'']" True example_now 7
      "''esp32_01''" "[''temperature'' \<mapsto> Finite 90]" example_world]
  note t2 = ingest_validation_failure [of None "[''key-1'']" True example_now 7
      "''esp32_01''" "[''temperature'' \<mapsto> Finite 25]" example_world]
  note t3 = ingest_validation_failure [of "Some ''key-1''" "[''key-1'']" True example_now 7
      "''esp32_02''" "[''temperature'' \<mapsto> Finite 25]" example_world]
  have dev: "devices example_world ''esp32_01'' = Some example_device"
    by (simp add: example_world_def)
  have nodev: "devices example_world ''esp32_02'' = None"
    by (simp add: example_world_def)
  have act: "is_active example_device"
    by (simp add: example_device_def)
  have bad: "\<not> between (- 40) (Finite 90) 85"
    by (simp add: between_def)
  have fd: "from_dict [''temperature'' \<mapsto> Finite 90] =
              Inl (ValueError ''Temperature must be between -40.0 and 85.0'')"
    using t bad by simp
  have a: "ingest [''key-1''] True example_now 7 ''esp32_01'' [''temperature'' \<mapsto> Finite 90]
     (Some ''key-1'') example_world =
     (Inl (InvalidPayloadError ''Temperature must be between -40.0 and 85.0''), example_world)"
    using t dev act fd by simp
  have b: "ingest [''key-1''] True example_now 7 ''esp32_01'' [''temperature'' \<mapsto> Finite 25]
     None example_world = (Inl AuthenticationError, example_world)"
    using t2 by simp
  have c: "ingest [''key-1''] True example_now 7 ''esp32_02'' [''temperature'' \<mapsto> Finite 25]
     (Some ''key-1'') example_world = (Inl (DeviceNotFoundError ''esp32_02''), example_world)"
    using t3 nodev by simp
  show ?thesis
    using a b c by (simp add: example_world_def)
qed

end
